theory Spec2Isabelle
  imports
    Complex_Main
    "HOL-Library.Char_ord"
    "HOL-Library.List_Lexorder"
    "HOL-Library.Product_Lexorder"
begin

section \<open>Data model\<close>

text \<open>
  The dashboard script \<^verbatim>\<open>app.py\<close> reads one spreadsheet into a pandas DataFrame and
  recomputes everything else from it. A DataFrame is modelled as the list of its rows, in
  index order. Every column has the type that the dashboard expects of it: dates in the
  two date columns, numbers in Quantity, Sales Amount and Cost Price, text in the others.
  A cell may be blank: pandas reads a blank cell as NaN (NaT in a date column), which is
  \<open>None\<close> here. An amount is the real number that the cell holds. pandas adds
  amounts in binary64; the rounding of these additions is not part of the model, so
  that no result below depends on it: the sum of a groupby is a parameter of the
  aggregations, and \<open>nansum\<close> is that sum in exact arithmetic.
\<close>

datatype month = Jan | Feb | Mar | Apr | May | Jun | Jul | Aug | Sep | Oct | Nov | Dec

fun month_num :: "month \<Rightarrow> nat" where
  "month_num Jan = 1"
| "month_num Feb = 2"
| "month_num Mar = 3"
| "month_num Apr = 4"
| "month_num May = 5"
| "month_num Jun = 6"
| "month_num Jul = 7"
| "month_num Aug = 8"
| "month_num Sep = 9"
| "month_num Oct = 10"
| "month_num Nov = 11"
| "month_num Dec = 12"

text \<open>\<^verbatim>\<open>strftime('%b')\<close>: the abbreviated month name.\<close>

fun strftime_b :: "month \<Rightarrow> string" where
  "strftime_b Jan = ''Jan''"
| "strftime_b Feb = ''Feb''"
| "strftime_b Mar = ''Mar''"
| "strftime_b Apr = ''Apr''"
| "strftime_b May = ''May''"
| "strftime_b Jun = ''Jun''"
| "strftime_b Jul = ''Jul''"
| "strftime_b Aug = ''Aug''"
| "strftime_b Sep = ''Sep''"
| "strftime_b Oct = ''Oct''"
| "strftime_b Nov = ''Nov''"
| "strftime_b Dec = ''Dec''"

record date =
  year :: int
  month :: month
  day :: nat

text \<open>The eight columns that \<^verbatim>\<open>load_data\<close> keeps of the spreadsheet.\<close>

record raw_row =
  InvoiceDate :: "date option"
  SalesOrderDate :: "date option"
  Platform :: "string option"
  Brand :: "string option"
  OrderStatus :: "string option"
  Quantity :: "int option"
  SalesAmount :: "real option"
  CostPrice :: "real option"

text \<open>The four columns that \<^verbatim>\<open>load_data\<close> adds.\<close>

record row = raw_row +
  Year :: "int option"
  MonthNum :: "nat option"
  MonthName :: "string option"
  Profit :: "real option"

text \<open>
  A sheet is its header (the column names) and its data rows. Only the cells of the eight
  columns above are represented; when the header lacks one of them, \<^verbatim>\<open>load_data\<close>
  fails before any cell of it is read.
\<close>

record sheet =
  columns :: "string list"
  body :: "raw_row list"

datatype source = Unreadable | Workbook sheet

type_synonym filesystem = "string \<rightharpoonup> source"

datatype exn =
    FileNotFoundError
  | ReadError
  | KeyError "string list"
  | AttributeError

section \<open>Loading\<close>

definition filepath :: string where
  "filepath = ''RaySports_Sales_Data_2022_2025_v2.xlsx''"

definition read_excel :: "filesystem \<Rightarrow> string \<Rightarrow> exn + sheet" where
  "read_excel fs path =
     (case fs path of
        None \<Rightarrow> Inl FileNotFoundError
      | Some Unreadable \<Rightarrow> Inl ReadError
      | Some (Workbook sh) \<Rightarrow> Inr sh)"

definition required_columns :: "string list" where
  "required_columns =
     [''Invoice Date'', ''Sales Order Date'', ''Platform'', ''Brand'',
      ''Order Status'', ''Quantity'', ''Sales Amount'', ''Cost Price'']"

text \<open>\<^verbatim>\<open>df[[...]]\<close>: a KeyError names the columns that the frame lacks.\<close>

definition select_columns :: "string list \<Rightarrow> sheet \<Rightarrow> exn + sheet" where
  "select_columns cols sh =
     (let missing = filter (\<lambda>c. c \<notin> set (columns sh)) cols
      in if missing = [] then Inr (sh\<lparr>columns := cols\<rparr>) else Inl (KeyError missing))"

text \<open>
  The \<^verbatim>\<open>.dt\<close> accessor raises AttributeError unless the column is datetime-like;
  pandas infers that type only for a column in which some cell holds a date.
\<close>

definition datetimelike :: "date option list \<Rightarrow> bool" where
  "datetimelike col = (filter (\<lambda>c. c \<noteq> None) col \<noteq> [])"

text \<open>Subtraction of two columns: NaN where either operand is NaN.\<close>

fun sub_nan :: "real option \<Rightarrow> real option \<Rightarrow> real option" where
  "sub_nan (Some a) (Some b) = Some (a - b)"
| "sub_nan _ _ = None"

definition derive :: "raw_row \<Rightarrow> row" where
  "derive r =
     \<lparr>InvoiceDate = InvoiceDate r,
      SalesOrderDate = SalesOrderDate r,
      Platform = Platform r,
      Brand = Brand r,
      OrderStatus = OrderStatus r,
      Quantity = Quantity r,
      SalesAmount = SalesAmount r,
      CostPrice = CostPrice r,
      Year = map_option year (SalesOrderDate r),
      MonthNum = map_option (\<lambda>d. month_num (month d)) (SalesOrderDate r),
      MonthName = map_option (\<lambda>d. strftime_b (month d)) (SalesOrderDate r),
      Profit = sub_nan (SalesAmount r) (CostPrice r)\<rparr>"

definition load_data :: "filesystem \<Rightarrow> string \<Rightarrow> exn + row list" where
  "load_data fs path =
     (case read_excel fs path of
        Inl e \<Rightarrow> Inl e
      | Inr sh0 \<Rightarrow>
          (case select_columns required_columns sh0 of
             Inl e \<Rightarrow> Inl e
           | Inr sh \<Rightarrow>
               if datetimelike (map SalesOrderDate (body sh))
               then Inr (map derive (body sh))
               else Inl AttributeError))"

section \<open>Filtering\<close>

text \<open>
  \<^verbatim>\<open>Series.isin(values)\<close> is the boolean column of memberships, \<^verbatim>\<open>&\<close> is the
  elementwise conjunction of two boolean columns, and \<^verbatim>\<open>df[mask]\<close> keeps the rows
  whose mask entry is true. \<^verbatim>\<open>isin\<close> matches NaN with NaN, as equality of \<open>None\<close>
  does.
\<close>

definition isin :: "'a list \<Rightarrow> 'a list \<Rightarrow> bool list" where
  "isin col vals = map (\<lambda>v. v \<in> set vals) col"

definition mask_and :: "bool list \<Rightarrow> bool list \<Rightarrow> bool list" where
  "mask_and a b = map2 (\<and>) a b"

definition boolean_index :: "'r list \<Rightarrow> bool list \<Rightarrow> 'r list" where
  "boolean_index df msk = map fst (filter snd (zip df msk))"

definition filtered_df ::
  "row list \<Rightarrow> int option list \<Rightarrow> string option list \<Rightarrow> string option list \<Rightarrow> row list" where
  "filtered_df df year_filter selected_months platform_filter =
     boolean_index df
       (mask_and
          (mask_and (isin (map Year df) year_filter) (isin (map MonthName df) selected_months))
          (isin (map Platform df) platform_filter))"

section \<open>Sidebar\<close>

text \<open>
  \<^verbatim>\<open>Series.unique()\<close> and \<^verbatim>\<open>drop_duplicates()\<close> keep the first occurrence of
  each value, in order of appearance.
\<close>

definition unique :: "'a list \<Rightarrow> 'a list" where
  "unique xs = rev (remdups (rev xs))"

text \<open>\<^verbatim>\<open>sort_values('MonthNum')\<close> puts the rows whose key is NaN last.\<close>

fun nan_last :: "nat option \<Rightarrow> nat \<times> nat" where
  "nan_last None = (1, 0)"
| "nan_last (Some m) = (0, m)"

definition month_lookup :: "row list \<Rightarrow> (nat option \<times> string option) list" where
  "month_lookup df =
     sort_key (\<lambda>p. nan_last (fst p)) (unique (map (\<lambda>r. (MonthNum r, MonthName r)) df))"

definition all_months :: "row list \<Rightarrow> string option list" where
  "all_months df = map snd (month_lookup df)"

text \<open>
  What the user has set in the sidebar: the target slider, the chosen years, the state in
  which the user left the month checkboxes, and the chosen platforms. The widgets
  themselves are library code and are not modelled.
\<close>

record ui =
  target_slider :: int
  year_multiselect :: "int option list"
  month_checkbox :: "string option \<Rightarrow> bool"
  platform_multiselect :: "string option list"

text \<open>
  The loop over \<^verbatim>\<open>all_months\<close> that collects the months whose checkbox is set.
  Before it, the script sets every checkbox whenever the session has no state for the key
  \<^verbatim>\<open>chk_Jan\<close>; a dataset without a January row never has a checkbox of that key, so
  that all its months are selected in every run.
\<close>

definition selected_months_of :: "row list \<Rightarrow> (string option \<Rightarrow> bool) \<Rightarrow> string option list" where
  "selected_months_of df checked =
     (if Some ''Jan'' \<in> set (all_months df) then filter checked (all_months df)
      else all_months df)"

text \<open>The defaults of the two multiselects, and every checkbox set.\<close>

definition default_ui :: "row list \<Rightarrow> int \<Rightarrow> ui" where
  "default_ui df target =
     \<lparr>target_slider = target,
      year_multiselect = unique (map Year df),
      month_checkbox = (\<lambda>m. True),
      platform_multiselect = unique (map Platform df)\<rparr>"

section \<open>Metrics\<close>

text \<open>
  \<^verbatim>\<open>Series.sum()\<close> skips NaN; the sum of an empty column is 0. \<open>nansum\<close> adds in
  exact arithmetic.
\<close>

definition nansum :: "real option list \<Rightarrow> real" where
  "nansum col = sum_list (map (\<lambda>c. case c of None \<Rightarrow> 0 | Some x \<Rightarrow> x) col)"

definition current_sales :: "row list \<Rightarrow> real" where
  "current_sales view = nansum (map SalesAmount view)"

definition total_profit :: "row list \<Rightarrow> real" where
  "total_profit view = nansum (map Profit view)"

text \<open>
  Division. \<open>None\<close> is the outcome of dividing by zero: no number (Python raises
  ZeroDivisionError, numpy yields inf or NaN).
\<close>

definition truediv :: "real \<Rightarrow> real \<Rightarrow> real option" where
  "truediv a b = (if b = 0 then None else Some (a / b))"

definition progress_ratio :: "real \<Rightarrow> int \<Rightarrow> real option" where
  "progress_ratio sales target =
     (if target > 0 then truediv sales (of_int target) else Some 0)"

definition margin :: "real \<Rightarrow> real \<Rightarrow> real option" where
  "margin profit sales =
     (if sales > 0 then map_option (\<lambda>q. q * 100) (truediv profit sales) else Some 0)"

definition rem_to_goal :: "real \<Rightarrow> int \<Rightarrow> real" where
  "rem_to_goal sales target = max (of_int target - sales) 0"

text \<open>The line written beside the progress bar: either the gap or the surplus.\<close>

datatype goal_line = Gap real | Surplus real

definition goal_progress :: "real \<Rightarrow> int \<Rightarrow> goal_line" where
  "goal_progress sales target =
     (if rem_to_goal sales target > 0 then Gap (rem_to_goal sales target)
      else Surplus (sales - of_int target))"

section \<open>Aggregation\<close>

text \<open>
  \<^verbatim>\<open>groupby\<close> with its defaults: a row whose key is NaN belongs to no group
  (\<^verbatim>\<open>dropna=True\<close>), and the groups come in ascending order of their keys
  (\<^verbatim>\<open>sort=True\<close>).
\<close>

definition group_keys :: "('r \<Rightarrow> 'k::linorder option) \<Rightarrow> 'r list \<Rightarrow> 'k list" where
  "group_keys key rows = sort (remdups (List.map_filter key rows))"

definition group_rows :: "('r \<Rightarrow> 'k option) \<Rightarrow> 'k \<Rightarrow> 'r list \<Rightarrow> 'r list" where
  "group_rows key k rows = filter (\<lambda>r. key r = Some k) rows"

text \<open>Grouping by two columns: the key is NaN as soon as one of them is.\<close>

fun both :: "'a option \<Rightarrow> 'b option \<Rightarrow> ('a \<times> 'b) option" where
  "both (Some a) (Some b) = Some (a, b)"
| "both _ _ = None"

definition month_key :: "row \<Rightarrow> (nat \<times> string) option" where
  "month_key r = both (MonthNum r) (MonthName r)"

text \<open>
  The sum that \<^verbatim>\<open>groupby(...).sum()\<close> takes of a column of one group is the
  parameter \<open>agg\<close> of the aggregations below: pandas computes it in binary64, and what
  is proved of an aggregation for every \<open>agg\<close> holds of the sums that pandas computes.
  With \<open>nansum\<close> for \<open>agg\<close> the aggregation is the one of exact arithmetic.
\<close>

text \<open>
  An entry is (MonthNum, MonthName, sum of Sales Amount, sum of Profit). The final
  \<^verbatim>\<open>sort_values("MonthNum")\<close> is modelled by a stable sort; in a frame that
  \<^verbatim>\<open>load_data\<close> produced no two groups share a month number, so that the order of
  the entries does not depend on the sorting algorithm.
\<close>

definition monthly_perf ::
  "(real option list \<Rightarrow> real) \<Rightarrow> row list \<Rightarrow> (nat \<times> string \<times> real \<times> real) list" where
  "monthly_perf agg view =
     sort_key fst
       (map (\<lambda>k. (fst k, snd k,
                  agg (map SalesAmount (group_rows month_key k view)),
                  agg (map Profit (group_rows month_key k view))))
            (group_keys month_key view))"

text \<open>The sum of Sales Amount over the group of one brand.\<close>

definition brand_total :: "(real option list \<Rightarrow> real) \<Rightarrow> row list \<Rightarrow> string \<Rightarrow> real" where
  "brand_total agg view b = agg (map SalesAmount (group_rows Brand b view))"

definition brand_sales ::
  "(real option list \<Rightarrow> real) \<Rightarrow> row list \<Rightarrow> (string \<times> real) list" where
  "brand_sales agg view = map (\<lambda>b. (b, brand_total agg view b)) (group_keys Brand view)"

text \<open>
  \<^verbatim>\<open>nlargest(n, col)\<close> with \<^verbatim>\<open>keep='first'\<close>: the first \<open>n\<close> rows of the frame
  sorted by descending value, rows of equal value staying in their order.
\<close>

definition nlargest :: "nat \<Rightarrow> ('a \<times> real) list \<Rightarrow> ('a \<times> real) list" where
  "nlargest n xs = take n (sort_key (\<lambda>p. - snd p) xs)"

definition top_5 :: "(real option list \<Rightarrow> real) \<Rightarrow> row list \<Rightarrow> string list" where
  "top_5 agg view = map fst (nlargest 5 (brand_sales agg view))"

section \<open>The script\<close>

record dashboard =
  shown_rows :: "row list"
  gross_revenue :: real
  progress :: "real option"
  net_profit :: real
  profit_margin :: "real option"
  goal :: goal_line
  revenue_rhythm :: "(nat \<times> string \<times> real \<times> real) list"
  heavy_hitters :: "string list"

text \<open>
  One run of the script: \<^verbatim>\<open>st.error\<close> followed by \<^verbatim>\<open>st.stop()\<close> ends the run
  with the error shown and nothing else. Otherwise \<open>render\<close> gives the values that the
  script computes for the page from the dataset and the sidebar, in exact arithmetic.
  The widgets and charts that receive these values are library code: an exception that
  one of them raises on its input (a blank year or platform among the options of a
  multiselect, a negative progress value, a blank brand in the treemap) is not modelled.
\<close>

datatype outcome = Stopped exn | Rendered dashboard

definition render :: "row list \<Rightarrow> ui \<Rightarrow> dashboard" where
  "render df u =
     (let view = filtered_df df (year_multiselect u)
                   (selected_months_of df (month_checkbox u)) (platform_multiselect u);
          sales = current_sales view;
          profit = total_profit view
      in \<lparr>shown_rows = view,
          gross_revenue = sales,
          progress = progress_ratio sales (target_slider u),
          net_profit = profit,
          profit_margin = margin profit sales,
          goal = goal_progress sales (target_slider u),
          revenue_rhythm = monthly_perf nansum view,
          heavy_hitters = top_5 nansum view\<rparr>)"

definition app :: "filesystem \<Rightarrow> ui \<Rightarrow> outcome" where
  "app fs u =
     (case load_data fs filepath of
        Inl e \<Rightarrow> Stopped e
      | Inr df \<Rightarrow> Rendered (render df u))"

section \<open>Notions of the specification\<close>

text \<open>
  The specification's gap and surplus, in its own words, and the brands that occur in a
  view. The script computes the first as \<open>rem_to_goal\<close> and writes the second only when
  there is no gap.
\<close>

definition gap :: "real \<Rightarrow> int \<Rightarrow> real" where
  "gap sales target = max (of_int target - sales) 0"

definition surplus :: "real \<Rightarrow> int \<Rightarrow> real" where
  "surplus sales target = max (sales - of_int target) 0"

definition brands :: "row list \<Rightarrow> string set" where
  "brands view = {b. Some b \<in> Brand ` set view}"

text \<open>
  The specification's sums, written with \<open>sum_list\<close> over the amounts that are
  present: the total sales amount of a brand in a view, and the sum of a column over the
  rows of one (month number, month name) group.
\<close>

definition brand_sum :: "row list \<Rightarrow> string \<Rightarrow> real" where
  "brand_sum view b =
     sum_list (List.map_filter SalesAmount (filter (\<lambda>r. Brand r = Some b) view))"

definition month_sum :: "(row \<Rightarrow> real option) \<Rightarrow> row list \<Rightarrow> nat \<Rightarrow> string \<Rightarrow> real" where
  "month_sum col view m n =
     sum_list (List.map_filter col
       (filter (\<lambda>r. MonthNum r = Some m \<and> MonthName r = Some n) view))"

section \<open>Example data\<close>

definition order_row ::
  "int \<Rightarrow> month \<Rightarrow> string option \<Rightarrow> string option \<Rightarrow> real \<Rightarrow> real \<Rightarrow> raw_row" where
  "order_row y m p b s c =
     \<lparr>InvoiceDate = Some \<lparr>year = y, month = m, day = 2\<rparr>,
      SalesOrderDate = Some \<lparr>year = y, month = m, day = 1\<rparr>,
      Platform = p, Brand = b, OrderStatus = Some ''Shipped'', Quantity = Some 1,
      SalesAmount = Some s, CostPrice = Some c\<rparr>"

text \<open>The three records of the specification's example scenario.\<close>

definition example_sheet :: sheet where
  "example_sheet =
     \<lparr>columns = required_columns,
      body = [order_row 2023 Jan (Some ''Amazon'') (Some ''Nike'') 100 60,
              order_row 2023 Feb (Some ''eBay'') (Some ''Nike'') 200 150,
              order_row 2024 Jan (Some ''Amazon'') (Some ''Adidas'') 300 100]\<rparr>"

definition example_fs :: filesystem where
  "example_fs = [filepath \<mapsto> Workbook example_sheet]"

definition example_df :: "row list" where
  "example_df = map derive (body example_sheet)"

text \<open>The same sheet without its Brand column.\<close>

definition brandless_sheet :: sheet where
  "brandless_sheet =
     example_sheet\<lparr>columns := filter (\<lambda>c. c \<noteq> ''Brand'') required_columns\<rparr>"

definition brandless_fs :: filesystem where
  "brandless_fs = [filepath \<mapsto> Workbook brandless_sheet]"

text \<open>
  Six brands. Nike and Fila have two orders each, Asics and Puma have the same total, and
  Fila is among the five greatest only by the sum of its two orders.
\<close>

definition six_brands :: "row list" where
  "six_brands =
     map derive
       [order_row 2023 Jan (Some ''Amazon'') (Some ''Nike'') 40 20,
        order_row 2023 Jan (Some ''Amazon'') (Some ''Puma'') 70 30,
        order_row 2023 Feb (Some ''eBay'') (Some ''Asics'') 70 30,
        order_row 2023 Feb (Some ''eBay'') (Some ''Fila'') 30 15,
        order_row 2023 Mar (Some ''eBay'') (Some ''Reebok'') 40 5,
        order_row 2023 Mar (Some ''Amazon'') (Some ''Adidas'') 300 100,
        order_row 2023 Mar (Some ''Amazon'') (Some ''Nike'') 50 10,
        order_row 2023 Apr (Some ''eBay'') (Some ''Fila'') 30 15]"

section \<open>Properties of the filter\<close>

lemma boolean_index_map: "boolean_index xs (map P xs) = filter P xs"
  by (induction xs) (simp_all add: boolean_index_def)

lemma mask_and_map: "mask_and (map P xs) (map Q xs) = map (\<lambda>x. P x \<and> Q x) xs"
  by (induction xs) (simp_all add: mask_and_def)

lemma isin_map: "isin (map f xs) vals = map (\<lambda>x. f x \<in> set vals) xs"
  by (simp add: isin_def)

lemma filtered_df_filter:
  "filtered_df df ys ms ps =
     filter (\<lambda>r. Year r \<in> set ys \<and> MonthName r \<in> set ms \<and> Platform r \<in> set ps) df"
  by (simp add: filtered_df_def isin_map mask_and_map boolean_index_map)

text \<open>
  C1. For every dataset and every selection of years, month names and platforms, the
  filter returns exactly the records whose year is among the selected years and whose
  month name is among the selected months and whose platform is among the selected
  platforms, in the order in which they stand in the dataset.
\<close>

theorem filter_conjunction_in_order:
  "filtered_df df ys ms ps =
     filter (\<lambda>r. Year r \<in> set ys \<and> MonthName r \<in> set ms \<and> Platform r \<in> set ps) df"
  by (rule filtered_df_filter)

text \<open>
  C2. When one of the three selections is empty, the filter returns the empty view; the
  filter has no error outcome.
\<close>

theorem filter_empty_selection:
  "ys = [] \<or> ms = [] \<or> ps = [] \<Longrightarrow> filtered_df df ys ms ps = []"
  by (auto simp add: filtered_df_filter)

theorem filter_empty_selection_witness:
  "filtered_df example_df [] [Some ''Jan''] [Some ''Amazon''] = [] \<and>
   filtered_df example_df [Some 2023] [] [Some ''Amazon''] = [] \<and>
   filtered_df example_df [Some 2023] [Some ''Jan''] [] = []"
  using filter_empty_selection [of "[]" "[Some ''Jan'']" "[Some ''Amazon'']" example_df]
    filter_empty_selection [of "[Some 2023]" "[]" "[Some ''Amazon'']" example_df]
    filter_empty_selection [of "[Some 2023]" "[Some ''Jan'']" "[]" example_df]
  by simp

text \<open>
  C7. The filter is idempotent: filtering a filtered view again with the same selection
  gives the same view.
\<close>

theorem filter_idempotent:
  "filtered_df (filtered_df df ys ms ps) ys ms ps = filtered_df df ys ms ps"
  by (simp add: filtered_df_filter)

section \<open>The full selection\<close>

lemma load_example: "load_data example_fs filepath = Inr example_df"
  by (simp add: load_data_def read_excel_def example_fs_def select_columns_def
      example_sheet_def example_df_def datetimelike_def order_row_def)

lemma set_unique: "set (unique xs) = set xs"
  by (simp add: unique_def)

lemma set_all_months: "set (all_months df) = MonthName ` set df"
  by (force simp add: all_months_def month_lookup_def set_unique)

text \<open>The sidebar's defaults select every value that occurs in the dataset.\<close>

lemma default_ui_full:
  "set (year_multiselect (default_ui df t)) = Year ` set df \<and>
   set (selected_months_of df (month_checkbox (default_ui df t))) = MonthName ` set df \<and>
   set (platform_multiselect (default_ui df t)) = Platform ` set df"
  by (simp add: default_ui_def selected_months_of_def set_unique set_all_months)

text \<open>
  C8. Filtering with the full selection, whose years, months and platforms are exactly
  the values present in the dataset, keeps the total of the sales amount: the total over
  the filtered view is the total over the dataset.
\<close>

theorem full_selection_total:
  assumes "set ys = Year ` set df" and "set ms = MonthName ` set df"
    and "set ps = Platform ` set df"
  shows "filtered_df df ys ms ps = df \<and>
         current_sales (filtered_df df ys ms ps) = current_sales df"
proof -
  have "filter (\<lambda>r. Year r \<in> set ys \<and> MonthName r \<in> set ms \<and> Platform r \<in> set ps) df = df"
    using assms by (simp add: filter_id_conv)
  then show ?thesis by (simp add: filtered_df_filter)
qed

theorem full_selection_total_witness:
  "current_sales (shown_rows (render example_df (default_ui example_df 250))) =
     current_sales example_df \<and> current_sales example_df = 600"
proof -
  let ?u = "default_ui example_df 250"
  have "current_sales (filtered_df example_df (year_multiselect ?u)
          (selected_months_of example_df (month_checkbox ?u)) (platform_multiselect ?u)) =
        current_sales example_df"
    using full_selection_total [of "year_multiselect ?u" example_df
        "selected_months_of example_df (month_checkbox ?u)" "platform_multiselect ?u"]
      default_ui_full [of example_df 250]
    by blast
  moreover have "current_sales example_df = 600"
    by (simp add: current_sales_def nansum_def example_df_def example_sheet_def
        order_row_def derive_def)
  ultimately show ?thesis by (simp add: render_def Let_def)
qed

section \<open>Properties of the metrics\<close>

text \<open>
  C3. The margin is total profit / total sales * 100 when total sales are positive and 0
  when total sales are 0; the progress ratio is total sales / target when the target is
  positive and 0 otherwise. Both are always a number: no division by zero takes place.
\<close>

theorem margin_and_progress_defined:
  "margin profit sales = Some (if sales > 0 then profit / sales * 100 else 0) \<and>
   margin profit 0 = Some 0 \<and>
   progress_ratio sales target = Some (if target > 0 then sales / of_int target else 0)"
  by (simp add: margin_def progress_ratio_def truediv_def)

text \<open>
  C4. The gap is max (target - total sales) 0 and the surplus is max (total sales -
  target) 0; the script shows the gap when it is positive and the surplus otherwise.
  Exactly one of the two is positive, except that both are zero exactly when total sales
  equal the target.
\<close>

theorem gap_and_surplus:
  "rem_to_goal sales target = gap sales target \<and>
   goal_progress sales target =
     (if gap sales target > 0 then Gap (gap sales target) else Surplus (surplus sales target)) \<and>
   (if sales = of_int target then gap sales target = 0 \<and> surplus sales target = 0
    else (gap sales target > 0) \<noteq> (surplus sales target > 0)) \<and>
   ((gap sales target = 0 \<and> surplus sales target = 0) = (sales = of_int target))"
  by (auto simp add: rem_to_goal_def goal_progress_def gap_def surplus_def max_def)

section \<open>Load failure\<close>

text \<open>
  C9. When the source file is missing or unreadable, or lacks a required column (the
  Brand column in particular), loading fails with an error and yields no dataset, and the
  script stops with that error: nothing of the dashboard is computed.
\<close>

theorem load_failure_stops:
  assumes "fs path = None \<or> fs path = Some Unreadable \<or>
           (\<exists>sh. fs path = Some (Workbook sh) \<and>
                 (''Brand'' \<notin> set (columns sh) \<or> \<not> set required_columns \<subseteq> set (columns sh)))"
  shows "(\<exists>e. load_data fs path = Inl e) \<and>
         (path = filepath \<longrightarrow> (\<exists>e. app fs u = Stopped e \<and> load_data fs path = Inl e))"
proof -
  have "\<exists>e. load_data fs path = Inl e"
    using assms
  proof (elim disjE exE conjE)
    assume "fs path = None"
    then show ?thesis by (simp add: load_data_def read_excel_def)
  next
    assume "fs path = Some Unreadable"
    then show ?thesis by (simp add: load_data_def read_excel_def)
  next
    fix sh assume sh: "fs path = Some (Workbook sh)" and "''Brand'' \<notin> set (columns sh)"
    then have "filter (\<lambda>c. c \<notin> set (columns sh)) required_columns \<noteq> []"
      by (simp add: required_columns_def)
    with sh show ?thesis
      by (simp add: load_data_def read_excel_def select_columns_def Let_def)
  next
    fix sh assume sh: "fs path = Some (Workbook sh)"
      and "\<not> set required_columns \<subseteq> set (columns sh)"
    then have "filter (\<lambda>c. c \<notin> set (columns sh)) required_columns \<noteq> []"
      by (auto simp add: filter_empty_conv)
    with sh show ?thesis
      by (simp add: load_data_def read_excel_def select_columns_def Let_def)
  qed
  then show ?thesis by (auto simp add: app_def)
qed

theorem load_failure_stops_witness:
  "app brandless_fs (default_ui [] 500000) = Stopped (KeyError [''Brand'']) \<and>
   load_data brandless_fs filepath = Inl (KeyError [''Brand'']) \<and>
   app Map.empty (default_ui [] 500000) = Stopped FileNotFoundError"
proof -
  let ?u = "default_ui [] 500000"
  have b: "brandless_fs filepath = Some (Workbook brandless_sheet)"
    by (simp add: brandless_fs_def)
  have c: "''Brand'' \<notin> set (columns brandless_sheet)"
    by (simp add: brandless_sheet_def)
  have l: "load_data brandless_fs filepath = Inl (KeyError [''Brand''])"
    by (simp add: load_data_def read_excel_def brandless_fs_def brandless_sheet_def
        select_columns_def required_columns_def)
  have "\<exists>e. app brandless_fs ?u = Stopped e \<and> load_data brandless_fs filepath = Inl e"
    using load_failure_stops [of brandless_fs filepath ?u] b c by blast
  with l have "app brandless_fs ?u = Stopped (KeyError [''Brand''])" by auto
  moreover have "\<exists>e. app Map.empty ?u = Stopped e \<and> load_data Map.empty filepath = Inl e"
    using load_failure_stops [of Map.empty filepath ?u] by simp
  then have "app Map.empty ?u = Stopped FileNotFoundError"
    by (auto simp add: load_data_def read_excel_def)
  ultimately show ?thesis using l by simp
qed

section \<open>Properties of grouping\<close>

lemma set_group_keys: "set (group_keys key rows) = {k. \<exists>r\<in>set rows. key r = Some k}"
  by (force simp add: group_keys_def List.map_filter_def)

lemma distinct_group_keys: "distinct (group_keys key rows)"
  by (simp add: group_keys_def)

lemma insort_key_map:
  "insort_key g (F x) (map F xs) = map F (insort_key (\<lambda>x. g (F x)) x xs)"
  by (induction xs) simp_all

lemma sort_key_map: "sort_key g (map F xs) = map F (sort_key (\<lambda>x. g (F x)) xs)"
  by (induction xs) (simp_all add: insort_key_map)

text \<open>In exact arithmetic the sum of a column is the sum of the amounts present in it.\<close>

lemma nansum_map_filter: "nansum (map col rows) = sum_list (List.map_filter col rows)"
  by (induction rows) (simp_all add: nansum_def List.map_filter_simps split: option.split)

lemmas example_defs =
  example_df_def example_sheet_def order_row_def derive_def filtered_df_filter

lemmas group_defs =
  group_keys_def group_rows_def List.map_filter_def nansum_def

section \<open>Monthly totals\<close>

lemma month_num_inj: "month_num a = month_num b \<Longrightarrow> a = b"
  by (cases a; cases b; simp)

lemma month_key_Some:
  "month_key r = Some (m, n) \<longleftrightarrow> MonthNum r = Some m \<and> MonthName r = Some n"
  by (cases "MonthNum r"; cases "MonthName r"; simp add: month_key_def)

lemma load_data_rows: "load_data fs path = Inr df \<Longrightarrow> \<exists>rows. df = map derive rows"
  by (auto simp add: load_data_def select_columns_def Let_def split: sum.splits if_splits)

lemma month_key_derive:
  "month_key (derive q) = Some (m, n) \<Longrightarrow> \<exists>mo. m = month_num mo \<and> n = strftime_b mo"
  by (cases "SalesOrderDate q") (auto simp add: month_key_def derive_def)

lemma loaded_month_name:
  assumes "load_data fs path = Inr df" and "r \<in> set df" and "r' \<in> set df"
    and "month_key r = Some (m, n)" and "month_key r' = Some (m, n')"
  shows "n = n'"
proof -
  obtain rows where "df = map derive rows"
    using load_data_rows [OF assms(1)] by blast
  with assms(2,3) obtain q q' where "r = derive q" "r' = derive q'" by auto
  with assms(4,5) obtain mo mo' where
    "m = month_num mo" "n = strftime_b mo" "m = month_num mo'" "n' = strftime_b mo'"
    using month_key_derive by blast
  then show ?thesis using month_num_inj by auto
qed

lemma monthly_perf_map:
  "monthly_perf agg view =
     map (\<lambda>k. (fst k, snd k,
                agg (map SalesAmount (group_rows month_key k view)),
                agg (map Profit (group_rows month_key k view))))
         (sort_key fst (group_keys month_key view))"
  by (simp add: monthly_perf_def sort_key_map)

lemma group_rows_month_key:
  "group_rows month_key (m, n) view =
     filter (\<lambda>r. MonthNum r = Some m \<and> MonthName r = Some n) view"
  by (simp add: group_rows_def month_key_Some)

text \<open>
  C5. For every filtered view of a loaded dataset, the monthly totals have one entry for
  each (month number, month name) group of the view; the entry holds the sum of the
  sales amount and the sum of the profit over the rows of that group, which in exact
  arithmetic are the \<open>sum_list\<close> of the amounts present in them; the entries are in
  ascending order of month number, and no month number occurs in two entries.
\<close>

theorem monthly_perf_groups:
  assumes "load_data fs path = Inr df" and "view = filtered_df df ys ms ps"
  shows "sorted (map fst (monthly_perf agg view)) \<and>
         distinct (map fst (monthly_perf agg view)) \<and>
         set (map (\<lambda>e. (fst e, fst (snd e))) (monthly_perf agg view)) =
           {(m, n). \<exists>r\<in>set view. MonthNum r = Some m \<and> MonthName r = Some n} \<and>
         (\<forall>e\<in>set (monthly_perf agg view).
            case e of (m, n, s, p) \<Rightarrow>
              s = agg (map SalesAmount
                    (filter (\<lambda>r. MonthNum r = Some m \<and> MonthName r = Some n) view)) \<and>
              p = agg (map Profit
                    (filter (\<lambda>r. MonthNum r = Some m \<and> MonthName r = Some n) view))) \<and>
         (\<forall>e\<in>set (monthly_perf nansum view).
            case e of (m, n, s, p) \<Rightarrow>
              s = month_sum SalesAmount view m n \<and> p = month_sum Profit view m n)"
proof -
  let ?ks = "sort_key fst (group_keys month_key view)"
  have sub: "set view \<subseteq> set df"
    using assms(2) by (auto simp add: filtered_df_filter)
  have keys: "map fst (monthly_perf agg view) = map fst ?ks"
    by (simp add: monthly_perf_map comp_def)
  have pairs: "map (\<lambda>e. (fst e, fst (snd e))) (monthly_perf agg view) = ?ks"
    by (simp add: monthly_perf_map comp_def)
  have a: "sorted (map fst (monthly_perf agg view))"
    unfolding keys by (rule sorted_sort_key)
  have "inj_on fst (set (group_keys month_key view))"
  proof (rule inj_onI)
    fix k k' assume k: "k \<in> set (group_keys month_key view)"
      and k': "k' \<in> set (group_keys month_key view)" and eq: "fst k = fst k'"
    obtain r r' where r: "r \<in> set view" "month_key r = Some k"
      and r': "r' \<in> set view" "month_key r' = Some k'"
      using k k' by (auto simp add: set_group_keys)
    have "month_key r = Some (fst k, snd k)" and "month_key r' = Some (fst k, snd k')"
      using r r' eq by (simp_all add: prod_eq_iff)
    moreover have "r \<in> set df" and "r' \<in> set df"
      using r r' sub by auto
    ultimately have "snd k = snd k'"
      using loaded_month_name [OF assms(1)] by blast
    with eq show "k = k'" by (simp add: prod_eq_iff)
  qed
  then have b: "distinct (map fst (monthly_perf agg view))"
    unfolding keys by (simp add: distinct_map distinct_group_keys)
  have c: "set (map (\<lambda>e. (fst e, fst (snd e))) (monthly_perf agg view)) =
           {(m, n). \<exists>r\<in>set view. MonthNum r = Some m \<and> MonthName r = Some n}"
    unfolding pairs by (auto simp add: set_group_keys month_key_Some)
  have d: "\<forall>e\<in>set (monthly_perf agg view).
            case e of (m, n, s, p) \<Rightarrow>
              s = agg (map SalesAmount
                    (filter (\<lambda>r. MonthNum r = Some m \<and> MonthName r = Some n) view)) \<and>
              p = agg (map Profit
                    (filter (\<lambda>r. MonthNum r = Some m \<and> MonthName r = Some n) view))"
    by (auto simp add: monthly_perf_map group_rows_month_key [symmetric])
  have e: "\<forall>e\<in>set (monthly_perf nansum view).
            case e of (m, n, s, p) \<Rightarrow>
              s = month_sum SalesAmount view m n \<and> p = month_sum Profit view m n"
    by (auto simp add: monthly_perf_map group_rows_month_key nansum_map_filter month_sum_def)
  from a b c d e show ?thesis by blast
qed

theorem monthly_perf_groups_witness:
  "load_data example_fs filepath = Inr example_df \<and>
   filtered_df example_df [Some 2023, Some 2024] [Some ''Jan'', Some ''Feb'']
     [Some ''Amazon'', Some ''eBay''] = example_df \<and>
   monthly_perf nansum example_df = [(1, ''Jan'', 400, 240), (2, ''Feb'', 200, 50)] \<and>
   month_sum SalesAmount example_df 1 ''Jan'' = 100 + 300 \<and>
   month_sum Profit example_df 1 ''Jan'' = (100 - 60) + (300 - 100) \<and>
   sorted (map fst (monthly_perf nansum example_df)) \<and>
   distinct (map fst (monthly_perf nansum example_df))"
proof -
  have v: "example_df = filtered_df example_df [Some 2023, Some 2024]
      [Some ''Jan'', Some ''Feb''] [Some ''Amazon'', Some ''eBay'']"
    by (simp add: example_defs)
  have m: "monthly_perf nansum example_df = [(1, ''Jan'', 400, 240), (2, ''Feb'', 200, 50)]"
    by (simp add: example_defs monthly_perf_def month_key_def group_defs)
  note inst = monthly_perf_groups [OF load_example v, of nansum]
  have "(1, ''Jan'', 400, 240) \<in> set (monthly_perf nansum example_df)"
    by (simp add: m)
  with inst have "400 = month_sum SalesAmount example_df 1 ''Jan'' \<and>
      240 = month_sum Profit example_df 1 ''Jan''"
    by fastforce
  then have "month_sum SalesAmount example_df 1 ''Jan'' = 100 + 300 \<and>
      month_sum Profit example_df 1 ''Jan'' = (100 - 60) + (300 - 100)"
    by simp
  then show ?thesis
    using load_example v [symmetric] m inst by simp
qed

section \<open>Top brands\<close>

lemma set_group_keys_Brand: "set (group_keys Brand view) = brands view"
  by (force simp add: set_group_keys brands_def)

lemma top_5_ranked:
  "top_5 agg view = take 5 (sort_key (\<lambda>b. - brand_total agg view b) (group_keys Brand view))"
  by (simp add: top_5_def nlargest_def brand_sales_def sort_key_map take_map comp_def)

lemma brand_total_exact: "brand_total nansum view b = brand_sum view b"
  by (simp add: brand_total_def brand_sum_def group_rows_def nansum_map_filter)

lemma filter_take_prefix:
  "filter P (take n xs) = take (length (filter P (take n xs))) (filter P xs)"
proof (induction xs arbitrary: n)
  case Nil
  then show ?case by simp
next
  case (Cons x xs)
  then show ?case by (cases n) auto
qed

lemma sorted_wrt_take_drop:
  "sorted_wrt R xs \<Longrightarrow> a \<in> set (take n xs) \<Longrightarrow> b \<in> set (drop n xs) \<Longrightarrow> R a b"
  using sorted_wrt_append [of R "take n xs" "drop n xs"] by simp

text \<open>The selection, for any sum of a group.\<close>

lemma top_5_by:
  "length (top_5 agg view) = min 5 (card (brands view)) \<and>
   set (top_5 agg view) \<subseteq> brands view \<and>
   distinct (top_5 agg view) \<and>
   sorted_wrt (\<lambda>a b. brand_total agg view a \<ge> brand_total agg view b) (top_5 agg view) \<and>
   (\<forall>a\<in>set (top_5 agg view). \<forall>b\<in>brands view - set (top_5 agg view).
      brand_total agg view b \<le> brand_total agg view a) \<and>
   (\<forall>t. filter (\<lambda>b. brand_total agg view b = t) (top_5 agg view) =
        take (length (filter (\<lambda>b. brand_total agg view b = t) (top_5 agg view)))
          (filter (\<lambda>b. brand_total agg view b = t) (map fst (brand_sales agg view))))"
proof -
  let ?T = "brand_total agg view"
  let ?ks = "group_keys Brand view"
  let ?ranked = "sort_key (\<lambda>b. - ?T b) ?ks"
  have top: "top_5 agg view = take 5 ?ranked" by (rule top_5_ranked)
  have set_ranked: "set ?ranked = brands view"
    by (simp add: set_group_keys_Brand)
  have dist: "distinct ?ranked"
    by (simp add: distinct_group_keys)
  have "length ?ranked = card (brands view)"
    using distinct_card [OF dist] set_ranked by simp
  then have a: "length (top_5 agg view) = min 5 (card (brands view))"
    by (simp add: top min.commute)
  have b: "set (top_5 agg view) \<subseteq> brands view"
    unfolding top using set_take_subset [of 5 ?ranked] set_ranked by simp
  have c: "distinct (top_5 agg view)"
    unfolding top using dist by (rule distinct_take)
  have "sorted (map (\<lambda>b. - ?T b) ?ranked)"
    by (rule sorted_sort_key)
  then have desc: "sorted_wrt (\<lambda>a b. ?T a \<ge> ?T b) ?ranked"
    by (simp add: sorted_map)
  then have d: "sorted_wrt (\<lambda>a b. ?T a \<ge> ?T b) (top_5 agg view)"
    unfolding top by (rule sorted_wrt_take)
  have e: "\<forall>a\<in>set (top_5 agg view). \<forall>b\<in>brands view - set (top_5 agg view). ?T b \<le> ?T a"
  proof (intro ballI)
    fix a b assume a: "a \<in> set (top_5 agg view)"
      and b: "b \<in> brands view - set (top_5 agg view)"
    have "set ?ranked = set (take 5 ?ranked) \<union> set (drop 5 ?ranked)"
      by (metis append_take_drop_id set_append)
    with b have "b \<in> set (drop 5 ?ranked)"
      using set_ranked top by auto
    with a show "?T b \<le> ?T a"
      using sorted_wrt_take_drop [OF desc, of a 5 b] top by simp
  qed
  have f: "\<forall>t. filter (\<lambda>b. ?T b = t) (top_5 agg view) =
        take (length (filter (\<lambda>b. ?T b = t) (top_5 agg view)))
          (filter (\<lambda>b. ?T b = t) (map fst (brand_sales agg view)))"
  proof
    fix t
    have "filter (\<lambda>b. - ?T b = - t) ?ranked = filter (\<lambda>b. - ?T b = - t) ?ks"
      by (rule sort_key_stable)
    then have st: "filter (\<lambda>b. ?T b = t) ?ranked = filter (\<lambda>b. ?T b = t) ?ks"
      by simp
    have ks: "map fst (brand_sales agg view) = ?ks"
      by (simp add: brand_sales_def comp_def)
    show "filter (\<lambda>b. ?T b = t) (top_5 agg view) =
        take (length (filter (\<lambda>b. ?T b = t) (top_5 agg view)))
          (filter (\<lambda>b. ?T b = t) (map fst (brand_sales agg view)))"
      unfolding top ks st [symmetric] by (rule filter_take_prefix)
  qed
  from a b c d e f show ?thesis by blast
qed

text \<open>
  C6. The top brands of a view are at most five brand identifiers, in descending order of
  the brand's total sales amount in the view; there are fewer than five only when the
  view has fewer than five distinct brands; no brand left out has a greater total than a
  brand chosen; and the brands of one total are chosen and listed in the order of the
  grouping. This holds of the totals however the sum of a group is computed, and in
  exact arithmetic the total of a brand is the \<open>sum_list\<close> of the sales amounts of
  its rows.
\<close>

theorem top_5_selection:
  "length (top_5 agg view) = min 5 (card (brands view)) \<and>
   set (top_5 agg view) \<subseteq> brands view \<and>
   distinct (top_5 agg view) \<and>
   sorted_wrt (\<lambda>a b. brand_total agg view a \<ge> brand_total agg view b) (top_5 agg view) \<and>
   (\<forall>a\<in>set (top_5 agg view). \<forall>b\<in>brands view - set (top_5 agg view).
      brand_total agg view b \<le> brand_total agg view a) \<and>
   (\<forall>t. filter (\<lambda>b. brand_total agg view b = t) (top_5 agg view) =
        take (length (filter (\<lambda>b. brand_total agg view b = t) (top_5 agg view)))
          (filter (\<lambda>b. brand_total agg view b = t) (map fst (brand_sales agg view)))) \<and>
   brand_total nansum view c = brand_sum view c \<and>
   sorted_wrt (\<lambda>a b. brand_sum view a \<ge> brand_sum view b) (top_5 nansum view) \<and>
   (\<forall>a\<in>set (top_5 nansum view). \<forall>b\<in>brands view - set (top_5 nansum view).
      brand_sum view b \<le> brand_sum view a) \<and>
   (\<forall>t. filter (\<lambda>b. brand_sum view b = t) (top_5 nansum view) =
        take (length (filter (\<lambda>b. brand_sum view b = t) (top_5 nansum view)))
          (filter (\<lambda>b. brand_sum view b = t) (map fst (brand_sales nansum view))))"
  using top_5_by [of agg view] top_5_by [of nansum view]
  by (simp add: brand_total_exact)

theorem top_5_selection_witness:
  "top_5 nansum six_brands = [''Adidas'', ''Nike'', ''Asics'', ''Puma'', ''Fila''] \<and>
   map fst (brand_sales nansum six_brands) =
     [''Adidas'', ''Asics'', ''Fila'', ''Nike'', ''Puma'', ''Reebok''] \<and>
   length (top_5 nansum six_brands) = min 5 (card (brands six_brands)) \<and>
   brand_total nansum six_brands ''Nike'' = 40 + 50 \<and>
   brand_total nansum six_brands ''Fila'' = 30 + 30 \<and>
   brand_sum six_brands ''Reebok'' = 40 \<and>
   brand_sum six_brands ''Reebok'' \<le> brand_sum six_brands ''Fila'' \<and>
   filter (\<lambda>b. brand_sum six_brands b = 70) (top_5 nansum six_brands) =
     take (length (filter (\<lambda>b. brand_sum six_brands b = 70) (top_5 nansum six_brands)))
       (filter (\<lambda>b. brand_sum six_brands b = 70) (map fst (brand_sales nansum six_brands)))"
proof -
  note inst = top_5_selection [of nansum six_brands]
  have t: "top_5 nansum six_brands = [''Adidas'', ''Nike'', ''Asics'', ''Puma'', ''Fila'']"
    by (simp add: six_brands_def order_row_def derive_def top_5_ranked brand_total_def
        group_defs)
  have g: "map fst (brand_sales nansum six_brands) =
      [''Adidas'', ''Asics'', ''Fila'', ''Nike'', ''Puma'', ''Reebok'']"
    by (simp add: six_brands_def order_row_def derive_def brand_sales_def group_defs)
  have s: "brand_sum six_brands ''Nike'' = 40 + 50" "brand_sum six_brands ''Fila'' = 30 + 30"
    "brand_sum six_brands ''Reebok'' = 40"
    by (simp_all add: brand_sum_def six_brands_def order_row_def derive_def
        List.map_filter_def)
  have n: "brand_total nansum six_brands ''Nike'' = 40 + 50"
    "brand_total nansum six_brands ''Fila'' = 30 + 30"
    using inst [of "''Nike''"] inst [of "''Fila''"] s by simp_all
  have "''Fila'' \<in> set (top_5 nansum six_brands)"
    by (simp add: t)
  moreover have "''Reebok'' \<in> brands six_brands - set (top_5 nansum six_brands)"
    by (simp add: t) (simp add: brands_def six_brands_def order_row_def derive_def)
  ultimately have "brand_sum six_brands ''Reebok'' \<le> brand_sum six_brands ''Fila''"
    using inst by blast
  with t g s n show ?thesis
    using inst by blast
qed

end
